theory Spec2Isabelle
  imports Main "HOL-Library.Word" "HOL-Library.Sublist"
begin

section \<open>Go values used by the rollback action\<close>

text \<open>
  The rollback action of \<^verbatim>\<open>package action\<close> (\<^verbatim>\<open>Rollback\<close>, \<^verbatim>\<open>RunWithResult\<close>,
  \<^verbatim>\<open>prepareRollback\<close>, \<^verbatim>\<open>performRollback\<close>) is embedded as functions that pass the
  configuration explicitly. A Go \<^verbatim>\<open>int\<close> is a 64-bit word (\<^verbatim>\<open>+\<close> and \<^verbatim>\<open>-\<close> wrap, comparisons
  with 0 are signed), a Go \<^verbatim>\<open>error\<close> is the text its \<^verbatim>\<open>Error()\<close> method returns, and a nil
  pointer or nil error is \<open>None\<close>.
\<close>

type_synonym go_int = "64 word"
type_synonym error = string
type_synonym duration = int
type_synonym time = nat

subsection \<open>Formatting: \<^verbatim>\<open>fmt\<close>, \<^verbatim>\<open>strings\<close> and \<^verbatim>\<open>github.com/pkg/errors\<close>\<close>

definition digit :: "nat \<Rightarrow> char" where
  "digit n = ''0123456789'' ! n"

function show_nat :: "nat \<Rightarrow> string" where
  "show_nat n = (if n < 10 then [digit n] else show_nat (n div 10) @ [digit (n mod 10)])"
  by pat_completeness auto
termination
  by (relation "measure id") auto

declare show_nat.simps [simp del]

definition show_int :: "int \<Rightarrow> string" where
  "show_int i = (if i < 0 then ''-'' @ show_nat (nat (- i)) else show_nat (nat i))"

text \<open>The verb \<^verbatim>\<open>%d\<close> applied to a Go \<^verbatim>\<open>int\<close>: the signed value in decimal.\<close>

definition fmt_d :: "go_int \<Rightarrow> string" where
  "fmt_d v = show_int (sint v)"

text \<open>
  The verb \<^verbatim>\<open>%q\<close>: the text between double quotes. Go also escapes quotes, backslashes
  and unprintable characters inside; a release name that passes validation has none.
\<close>

definition fmt_q :: "string \<Rightarrow> string" where
  "fmt_q s = [CHR 0x22] @ s @ [CHR 0x22]"

text \<open>\<^verbatim>\<open>strings.Join(elems, sep)\<close>.\<close>

fun Join :: "string list \<Rightarrow> string \<Rightarrow> string" where
  "Join [] sep = []"
| "Join [e] sep = e"
| "Join (e # es) sep = e @ sep @ Join es sep"

text \<open>\<^verbatim>\<open>strings.Contains(s, substr)\<close>.\<close>

fun Contains :: "string \<Rightarrow> string \<Rightarrow> bool" where
  "Contains [] substr = (substr = [])"
| "Contains (c # s) substr = (prefix substr (c # s) \<or> Contains s substr)"

text \<open>
  \<^verbatim>\<open>errors.Wrap(err, message)\<close> and \<^verbatim>\<open>errors.Wrapf\<close>: the text of the wrapped error is the
  message, a colon and a space, and the text of the cause.
\<close>

definition errors_Wrap :: "error \<Rightarrow> string \<Rightarrow> error" where
  "errors_Wrap err message = message @ '': '' @ err"

section \<open>Releases\<close>

datatype status =
    StatusUnknown
  | StatusDeployed
  | StatusUninstalled
  | StatusSuperseded
  | StatusFailed
  | StatusUninstalling
  | StatusPendingInstall
  | StatusPendingUpgrade
  | StatusPendingRollback

datatype hook_event = HookPreRollback | HookPostRollback

type_synonym chart = string
type_synonym config = string
type_synonym hook = string

text \<open>
  \<^verbatim>\<open>release.Info\<close> and \<^verbatim>\<open>release.Release\<close>, with the fields the action reads and writes.
  A release always has its \<open>Info\<close>.
\<close>

record info =
  FirstDeployed :: time
  LastDeployed :: time
  Status :: status
  Notes :: string
  Description :: string

record release =
  Name :: string
  Namespace :: string
  Chart :: chart
  Config :: config
  Info :: info
  Version :: go_int
  Manifest :: string
  Hooks :: "hook list"

text \<open>
  Modelled from the spec: \<^verbatim>\<open>release.SetStatus\<close> is declared outside the sources at hand.
  It sets the status; the message it is given becomes the description, as on the
  apply-failure path.
\<close>

definition SetStatus :: "release \<Rightarrow> status \<Rightarrow> string \<Rightarrow> release" where
  "SetStatus rel st msg = rel\<lparr>Info := (Info rel)\<lparr>Status := st, Description := msg\<rparr>\<rparr>"

section \<open>The release store\<close>

text \<open>
  Modelled from the spec: the release store (\<^verbatim>\<open>cfg.Releases\<close>, package storage) is not
  among the sources. It keeps release records by name and revision. \<open>Last\<close> is the record
  of a name with the highest revision, \<open>Get\<close> the record of a name at a revision,
  \<open>Create\<close> adds a record and fails when the name already has that revision, \<open>Update\<close>
  replaces the record of the same name and revision and fails when there is none, and
  \<open>DeployedAll\<close> lists the records of a name whose status is deployed; with none it
  returns no records and the condition "has no deployed releases". The retention cap
  \<open>MaxHistory\<close> is only stored: pruning is the store's own business. The store hands
  out copies: a release the action holds changes in the store only when it is written
  back. An operation fails only as said here; failures of the storage driver are left out.
\<close>

record storage =
  releases :: "release list"
  MaxHistory :: go_int

definition same_key :: "release \<Rightarrow> release \<Rightarrow> bool" where
  "same_key a b = (Name a = Name b \<and> Version a = Version b)"

definition later_release :: "release \<Rightarrow> release \<Rightarrow> release" where
  "later_release a b = (if sint (Version a) < sint (Version b) then b else a)"

definition storage_Last :: "storage \<Rightarrow> string \<Rightarrow> error + release" where
  "storage_Last s name =
     (case filter (\<lambda>rel. Name rel = name) (releases s) of
        [] \<Rightarrow> Inl (''no revision for release '' @ fmt_q name)
      | rel # rels \<Rightarrow> Inr (foldl later_release rel rels))"

definition storage_Get :: "storage \<Rightarrow> string \<Rightarrow> go_int \<Rightarrow> error + release" where
  "storage_Get s name version =
     (case find (\<lambda>rel. Name rel = name \<and> Version rel = version) (releases s) of
        None \<Rightarrow> Inl ''release: not found''
      | Some rel \<Rightarrow> Inr rel)"

definition storage_Create :: "storage \<Rightarrow> release \<Rightarrow> storage \<times> error option" where
  "storage_Create s rel =
     (if list_ex (same_key rel) (releases s) then (s, Some ''release: already exists'')
      else (s\<lparr>releases := releases s @ [rel]\<rparr>, None))"

definition storage_Update :: "storage \<Rightarrow> release \<Rightarrow> storage \<times> error option" where
  "storage_Update s rel =
     (if list_ex (same_key rel) (releases s)
      then (s\<lparr>releases := map (\<lambda>old. if same_key rel old then rel else old) (releases s)\<rparr>, None)
      else (s, Some ''release: not found''))"

definition storage_DeployedAll :: "storage \<Rightarrow> string \<Rightarrow> release list \<times> error option" where
  "storage_DeployedAll s name =
     (case filter (\<lambda>rel. Name rel = name \<and> Status (Info rel) = StatusDeployed) (releases s) of
        [] \<Rightarrow> ([], Some (fmt_q name @ '' has no deployed releases''))
      | rel # rels \<Rightarrow> (rel # rels, None))"

section \<open>The cluster client\<close>

type_synonym resource = string
type_synonym resource_list = "resource list"

text \<open>\<^verbatim>\<open>kube.Result\<close>: what an update created, updated and deleted.\<close>

record kube_result =
  Created :: resource_list
  Updated :: resource_list
  Deleted :: resource_list

text \<open>
  Modelled from the spec: \<^verbatim>\<open>kube.Interface\<close> is declared outside the sources at hand.
  A client is the answers its methods give. \<open>Update\<close> yields a result together with an
  error or nil; \<open>Delete\<close> yields the slice of deletion errors (\<open>None\<close> is the nil
  slice; the result it also returns is discarded by the caller). \<open>WithServerDryRun\<close>
  is \<open>None\<close> for a client that does not implement \<^verbatim>\<open>kube.ServerDryRunnableInterface\<close>,
  and otherwise the client the method of that name returns.
\<close>

datatype kube_client = KubeClientImpl
  (IsReachable: "error option")
  (Build: "string \<Rightarrow> bool \<Rightarrow> error + resource_list")
  (Update: "resource_list \<Rightarrow> resource_list \<Rightarrow> bool \<Rightarrow> kube_result \<times> error option")
  (Wait: "resource_list \<Rightarrow> duration \<Rightarrow> error option")
  (WaitWithJobs: "resource_list \<Rightarrow> duration \<Rightarrow> error option")
  (Delete: "resource_list \<Rightarrow> error list option")
  (WithServerDryRun: "kube_client option")

section \<open>The configuration and the calls it receives\<close>

text \<open>
  Every call the action makes on a collaborator, with its arguments. The configuration
  carries the list of the calls made so far, oldest first; the list is an observation of
  the run and nothing reads it.
\<close>

datatype call =
    CallWithServerDryRun
  | CallIsReachable
  | CallBuild string
  | CallUpdate resource_list resource_list bool
  | CallWait resource_list duration
  | CallWaitWithJobs resource_list duration
  | CallDelete resource_list
  | CallExecHook release hook_event duration
  | CallRecreate resource_list
  | StoreLast string
  | StoreGet string go_int
  | StoreCreate release
  | StoreUpdate release
  | StoreDeployedAll string

record configuration =
  KubeClient :: kube_client
  Releases :: storage
  calls :: "call list"

definition called :: "call \<Rightarrow> configuration \<Rightarrow> configuration" where
  "called c cfg = cfg\<lparr>calls := calls cfg @ [c]\<rparr>"

fun is_store_write :: "call \<Rightarrow> bool" where
  "is_store_write (StoreCreate rel) = True"
| "is_store_write (StoreUpdate rel) = True"
| "is_store_write c = False"

text \<open>
  What the action uses from the rest of its package and from other packages:
  \<^verbatim>\<open>chartutil.ValidateReleaseName\<close>, \<^verbatim>\<open>helmtime.Now\<close>, the hook executor
  \<^verbatim>\<open>cfg.execHook\<close> and \<^verbatim>\<open>recreate\<close>. They are parameters of the model, known by the
  answers they give; what a hook or a recreation does to the cluster, or a hook to the
  store and to the release it is given, is not modelled.
\<close>

record env =
  ValidateReleaseName :: "string \<Rightarrow> error option"
  Now :: time
  execHook :: "release \<Rightarrow> hook_event \<Rightarrow> duration \<Rightarrow> error option"
  recreate :: "resource_list \<Rightarrow> error option"

text \<open>
  Modelled from the spec: \<^verbatim>\<open>errInvalidRevision\<close> is declared outside the sources at hand;
  it is the error of a negative requested revision.
\<close>

definition errInvalidRevision :: error where
  "errInvalidRevision = ''invalid release revision''"

text \<open>
  The calls \<^verbatim>\<open>cfg.Releases.Create(rel)\<close> and \<^verbatim>\<open>cfg.Releases.Update(rel)\<close>: the store
  changes inside the configuration and the call is noted.
\<close>

definition Releases_Create :: "configuration \<Rightarrow> release \<Rightarrow> configuration \<times> error option" where
  "Releases_Create cfg rel =
     (case storage_Create (Releases cfg) rel of
        (s, err) \<Rightarrow> ((called (StoreCreate rel) cfg)\<lparr>Releases := s\<rparr>, err))"

definition Releases_Update :: "configuration \<Rightarrow> release \<Rightarrow> configuration \<times> error option" where
  "Releases_Update cfg rel =
     (case storage_Update (Releases cfg) rel of
        (s, err) \<Rightarrow> ((called (StoreUpdate rel) cfg)\<lparr>Releases := s\<rparr>, err))"

text \<open>
  Modelled from the spec: \<^verbatim>\<open>cfg.recordRelease\<close> is declared outside the sources at hand.
  It persists the release through the store's \<open>Update\<close>; it returns nothing, so a failure
  of the update does not reach the caller.
\<close>

definition recordRelease :: "configuration \<Rightarrow> release \<Rightarrow> configuration" where
  "recordRelease cfg rel = fst (Releases_Update cfg rel)"

section \<open>The rollback action\<close>

record rollback =
  Version :: go_int
  Timeout :: duration
  Wait :: bool
  WaitForJobs :: bool
  DisableHooks :: bool
  DryRun :: bool
  Recreate :: bool
  Force :: bool
  CleanupOnFail :: bool
  MaxHistory :: go_int
  ServerDryRun :: bool

subsection \<open>\<^verbatim>\<open>prepareRollback\<close>\<close>

text \<open>The local \<^verbatim>\<open>previousVersion\<close>: the requested revision, or the one before the current.\<close>

definition previousVersion :: "rollback \<Rightarrow> release \<Rightarrow> go_int" where
  "previousVersion r currentRelease =
     (if rollback.Version r = 0 then release.Version currentRelease - 1 else rollback.Version r)"

text \<open>
  Lines 140 to 157: the new release object, from the current release, the release at
  the previous version and that version.
\<close>

definition newTargetRelease :: "env \<Rightarrow> string \<Rightarrow> release \<Rightarrow> release \<Rightarrow> go_int \<Rightarrow> release" where
  "newTargetRelease e name currentRelease previousRelease version =
     \<lparr>Name = name,
      Namespace = Namespace currentRelease,
      Chart = Chart previousRelease,
      Config = Config previousRelease,
      Info = \<lparr>FirstDeployed = FirstDeployed (Info currentRelease),
              LastDeployed = Now e,
              Status = StatusPendingRollback,
              Notes = Notes (Info previousRelease),
              Description = ''Rollback to '' @ fmt_d version\<rparr>,
      Version = release.Version currentRelease + 1,
      Manifest = Manifest previousRelease,
      Hooks = Hooks previousRelease\<rparr>"

definition prepareRollback ::
  "env \<Rightarrow> rollback \<Rightarrow> configuration \<Rightarrow> string \<Rightarrow> configuration \<times> (error + release \<times> release)"
where
  "prepareRollback e r cfg name =
     (case ValidateReleaseName e name of
        Some err \<Rightarrow> (cfg, Inl (''prepareRollback: Release name is invalid: '' @ name))
      | None \<Rightarrow>
          if sint (rollback.Version r) < 0 then (cfg, Inl errInvalidRevision)
          else
            (case storage_Last (Releases cfg) name of
               Inl err \<Rightarrow> (called (StoreLast name) cfg, Inl err)
             | Inr currentRelease \<Rightarrow>
                 (case storage_Get (Releases cfg) name (previousVersion r currentRelease) of
                    Inl err \<Rightarrow>
                      (called (StoreGet name (previousVersion r currentRelease))
                         (called (StoreLast name) cfg), Inl err)
                  | Inr previousRelease \<Rightarrow>
                      (called (StoreGet name (previousVersion r currentRelease))
                         (called (StoreLast name) cfg),
                       Inr (currentRelease,
                            newTargetRelease e name currentRelease previousRelease
                              (previousVersion r currentRelease))))))"

subsection \<open>\<^verbatim>\<open>performRollback\<close>\<close>

text \<open>
  \<^verbatim>\<open>performRollback\<close> writes through its two release pointers, and its caller reads the
  target release again afterwards. The model returns the configuration, the two
  releases as the call leaves them, and the three values the Go function returns; the
  returned release pointer is the target release or nil.
\<close>

record performed =
  out_cfg :: configuration
  out_current :: release
  out_target :: release
  ret_release :: "release option"
  ret_result :: "kube_result option"
  ret_err :: "error option"

definition returns ::
  "configuration \<Rightarrow> release \<Rightarrow> release \<Rightarrow> release option \<Rightarrow> kube_result option \<Rightarrow>
   error option \<Rightarrow> performed"
where
  "returns cfg currentRelease targetRelease rel res err =
     \<lparr>out_cfg = cfg, out_current = currentRelease, out_target = targetRelease,
      ret_release = rel, ret_result = res, ret_err = err\<rparr>"

text \<open>Lines 177 to 186: the pre-rollback hooks.\<close>

definition preRollbackHooks ::
  "env \<Rightarrow> rollback \<Rightarrow> configuration \<Rightarrow> release \<Rightarrow> configuration \<times> error option"
where
  "preRollbackHooks e r cfg targetRelease =
     (if \<not> ServerDryRun r then
        (if \<not> DisableHooks r then
           (called (CallExecHook targetRelease HookPreRollback (Timeout r)) cfg,
            execHook e targetRelease HookPreRollback (Timeout r))
         else (cfg, None))
      else (cfg, None))"

text \<open>Lines 190 to 212: the update of the cluster returned the error \<open>err\<close>.\<close>

definition updateFailed ::
  "rollback \<Rightarrow> configuration \<Rightarrow> release \<Rightarrow> release \<Rightarrow> kube_result \<Rightarrow> error \<Rightarrow> performed"
where
  "updateFailed r cfg currentRelease targetRelease results err =
     (let msg = ''Rollback '' @ fmt_q (Name targetRelease) @ '' failed: '' @ err;
          currentRelease1 = currentRelease\<lparr>Info := (Info currentRelease)\<lparr>Status := StatusSuperseded\<rparr>\<rparr>;
          targetRelease1 =
            targetRelease\<lparr>Info := (Info targetRelease)\<lparr>Status := StatusFailed, Description := msg\<rparr>\<rparr>
      in
        if \<not> ServerDryRun r then
          (let cfg1 = recordRelease (recordRelease cfg currentRelease1) targetRelease1 in
             if CleanupOnFail r then
               (case Delete (KubeClient cfg1) (Created results) of
                  Some errs \<Rightarrow>
                    returns (called (CallDelete (Created results)) cfg1)
                      currentRelease1 targetRelease1 (Some targetRelease1) None
                      (Some (errors_Wrap
                         (''unable to cleanup resources: '' @ Join errs '', '')
                         (''an error occurred while cleaning up resources. original rollback error: ''
                            @ err)))
                | None \<Rightarrow>
                    returns (called (CallDelete (Created results)) cfg1)
                      currentRelease1 targetRelease1 (Some targetRelease1) (Some results) (Some err))
             else
               returns cfg1 currentRelease1 targetRelease1 (Some targetRelease1) (Some results)
                 (Some err))
        else
          returns cfg currentRelease1 targetRelease1 (Some targetRelease1) (Some results) (Some err))"

text \<open>Lines 233 to 236 and 240 to 243: waiting for the target resources returned \<open>err\<close>.\<close>

definition waitFailed :: "configuration \<Rightarrow> release \<Rightarrow> release \<Rightarrow> error \<Rightarrow> performed" where
  "waitFailed cfg currentRelease targetRelease err =
     (let targetRelease1 =
            SetStatus targetRelease StatusFailed
              (''Release '' @ fmt_q (Name targetRelease) @ '' failed: '' @ err)
      in
        returns (recordRelease (recordRelease cfg currentRelease) targetRelease1)
          currentRelease targetRelease1 (Some targetRelease1) None
          (Some (errors_Wrap err (''release '' @ Name targetRelease @ '' failed''))))"

text \<open>Lines 260 to 264: the loop that supersedes the deployed releases.\<close>

primrec supersede :: "configuration \<Rightarrow> release list \<Rightarrow> configuration" where
  "supersede cfg [] = cfg"
| "supersede cfg (rel # rels) =
     supersede (recordRelease cfg (rel\<lparr>Info := (Info rel)\<lparr>Status := StatusSuperseded\<rparr>\<rparr>)) rels"

text \<open>Lines 248 to 268: the post-rollback hooks and the bookkeeping of a success.\<close>

definition postRollback ::
  "env \<Rightarrow> rollback \<Rightarrow> configuration \<Rightarrow> release \<Rightarrow> release \<Rightarrow> kube_result \<Rightarrow> performed"
where
  "postRollback e r cfg currentRelease targetRelease results =
     (case (if \<not> DisableHooks r then
              (called (CallExecHook targetRelease HookPostRollback (Timeout r)) cfg,
               execHook e targetRelease HookPostRollback (Timeout r))
            else (cfg, None)) of
        (cfg1, Some err) \<Rightarrow>
          returns cfg1 currentRelease targetRelease (Some targetRelease) None (Some err)
      | (cfg1, None) \<Rightarrow>
          (case storage_DeployedAll (Releases cfg1) (Name currentRelease) of
             (deployed, err) \<Rightarrow>
               if (case err of
                     Some msg \<Rightarrow> \<not> Contains msg ''has no deployed releases''
                   | None \<Rightarrow> False)
               then
                 returns (called (StoreDeployedAll (Name currentRelease)) cfg1)
                   currentRelease targetRelease None None err
               else
                 (let targetRelease1 =
                        targetRelease\<lparr>Info := (Info targetRelease)\<lparr>Status := StatusDeployed\<rparr>\<rparr>
                  in
                    returns
                      (supersede (called (StoreDeployedAll (Name currentRelease)) cfg1) deployed)
                      currentRelease targetRelease1 (Some targetRelease1) (Some results) None)))"

text \<open>
  Lines 214 to 246: the update of the cluster succeeded. An error of \<^verbatim>\<open>recreate\<close> is
  only logged, so the call is noted and its answer is not looked at.
\<close>

definition updateSucceeded ::
  "env \<Rightarrow> rollback \<Rightarrow> configuration \<Rightarrow> release \<Rightarrow> release \<Rightarrow> resource_list \<Rightarrow> kube_result \<Rightarrow>
   performed"
where
  "updateSucceeded e r cfg currentRelease targetRelease target results =
     (if ServerDryRun r then
        (let targetRelease1 =
               targetRelease\<lparr>Info := (Info targetRelease)\<lparr>Status := StatusDeployed\<rparr>\<rparr>
         in returns cfg currentRelease targetRelease1 (Some targetRelease1) (Some results) None)
      else
        (let cfg1 = (if Recreate r then called (CallRecreate (Updated results)) cfg else cfg) in
           if rollback.Wait r then
             (if WaitForJobs r then
                (case WaitWithJobs (KubeClient cfg1) target (Timeout r) of
                   Some err \<Rightarrow>
                     waitFailed (called (CallWaitWithJobs target (Timeout r)) cfg1)
                       currentRelease targetRelease err
                 | None \<Rightarrow>
                     postRollback e r (called (CallWaitWithJobs target (Timeout r)) cfg1)
                       currentRelease targetRelease results)
              else
                (case kube_client.Wait (KubeClient cfg1) target (Timeout r) of
                   Some err \<Rightarrow>
                     waitFailed (called (CallWait target (Timeout r)) cfg1)
                       currentRelease targetRelease err
                 | None \<Rightarrow>
                     postRollback e r (called (CallWait target (Timeout r)) cfg1)
                       currentRelease targetRelease results))
           else postRollback e r cfg1 currentRelease targetRelease results))"

definition performRollback ::
  "env \<Rightarrow> rollback \<Rightarrow> configuration \<Rightarrow> release \<Rightarrow> release \<Rightarrow> performed"
where
  "performRollback e r cfg currentRelease targetRelease =
     (if DryRun r then
        returns cfg currentRelease targetRelease (Some targetRelease) None None
      else
        (case Build (KubeClient cfg) (Manifest currentRelease) False of
           Inl err \<Rightarrow>
             returns (called (CallBuild (Manifest currentRelease)) cfg)
               currentRelease targetRelease (Some targetRelease) None
               (Some (errors_Wrap err
                  ''unable to build kubernetes objects from current release manifest''))
         | Inr current \<Rightarrow>
             (case Build (KubeClient cfg) (Manifest targetRelease) False of
                Inl err \<Rightarrow>
                  returns
                    (called (CallBuild (Manifest targetRelease))
                       (called (CallBuild (Manifest currentRelease)) cfg))
                    currentRelease targetRelease (Some targetRelease) None
                    (Some (errors_Wrap err
                       ''unable to build kubernetes objects from new release manifest''))
              | Inr target \<Rightarrow>
                  (case preRollbackHooks e r
                          (called (CallBuild (Manifest targetRelease))
                             (called (CallBuild (Manifest currentRelease)) cfg))
                          targetRelease of
                     (cfg1, Some err) \<Rightarrow>
                       returns cfg1 currentRelease targetRelease (Some targetRelease) None (Some err)
                   | (cfg1, None) \<Rightarrow>
                       (case Update (KubeClient cfg1) current target (Force r) of
                          (results, Some err) \<Rightarrow>
                            updateFailed r (called (CallUpdate current target (Force r)) cfg1)
                              currentRelease targetRelease results err
                        | (results, None) \<Rightarrow>
                            updateSucceeded e r (called (CallUpdate current target (Force r)) cfg1)
                              currentRelease targetRelease target results)))))"

subsection \<open>\<^verbatim>\<open>RunWithResult\<close>\<close>

text \<open>Lines 69 to 75: the client that serves the run, or the capability error.\<close>

definition serverDryRunClient :: "rollback \<Rightarrow> configuration \<Rightarrow> error + configuration" where
  "serverDryRunClient r cfg =
     (if ServerDryRun r then
        (case WithServerDryRun (KubeClient cfg) of
           None \<Rightarrow> Inl ''the kube client doesn't support server dry run''
         | Some dri \<Rightarrow> Inr ((called CallWithServerDryRun cfg)\<lparr>KubeClient := dri\<rparr>))
      else Inr cfg)"

text \<open>
  \<^verbatim>\<open>RunWithResult\<close> returns a result pointer and an error; the model returns the
  configuration as the run leaves it as well.
\<close>

definition RunWithResult ::
  "env \<Rightarrow> rollback \<Rightarrow> configuration \<Rightarrow> string \<Rightarrow>
   configuration \<times> kube_result option \<times> error option"
where
  "RunWithResult e r cfg name =
     (case serverDryRunClient r cfg of
        Inl err \<Rightarrow> (cfg, None, Some err)
      | Inr cfg1 \<Rightarrow>
          (case IsReachable (KubeClient cfg1) of
             Some err \<Rightarrow> (called CallIsReachable cfg1, None, Some err)
           | None \<Rightarrow>
               (case prepareRollback e r
                       ((called CallIsReachable cfg1)
                          \<lparr>Releases := (Releases cfg1)\<lparr>storage.MaxHistory := rollback.MaxHistory r\<rparr>\<rparr>)
                       name of
                  (cfg2, Inl err) \<Rightarrow> (cfg2, None, Some err)
                | (cfg2, Inr (currentRelease, targetRelease)) \<Rightarrow>
                    (case (if \<not> DryRun r \<and> \<not> ServerDryRun r
                           then Releases_Create cfg2 targetRelease else (cfg2, None)) of
                       (cfg3, Some err) \<Rightarrow> (cfg3, None, Some err)
                     | (cfg3, None) \<Rightarrow>
                         (let p = performRollback e r cfg3 currentRelease targetRelease in
                            case ret_err p of
                              Some err \<Rightarrow> (out_cfg p, None, Some err)
                            | None \<Rightarrow>
                                if \<not> DryRun r \<and> \<not> ServerDryRun r then
                                  (case Releases_Update (out_cfg p) (out_target p) of
                                     (cfg4, Some err) \<Rightarrow> (cfg4, None, Some err)
                                   | (cfg4, None) \<Rightarrow> (cfg4, ret_result p, None))
                                else (out_cfg p, ret_result p, None))))))"

text \<open>\<^verbatim>\<open>Run\<close>: the error of \<^verbatim>\<open>RunWithResult\<close>.\<close>

definition Run :: "env \<Rightarrow> rollback \<Rightarrow> configuration \<Rightarrow> string \<Rightarrow> configuration \<times> error option" where
  "Run e r cfg name = (case RunWithResult e r cfg name of (cfg1, res, err) \<Rightarrow> (cfg1, err))"

section \<open>The store during a run\<close>

text \<open>
  What the loop of lines 260 to 264 makes of a release it was given, and of a record of
  the store once the loop has gone through the releases \<open>ds\<close>: every update replaces the
  records of the same name and revision.
\<close>

definition superseded :: "release \<Rightarrow> release" where
  "superseded rel = rel\<lparr>Info := (Info rel)\<lparr>Status := StatusSuperseded\<rparr>\<rparr>"

definition after_supersede :: "release list \<Rightarrow> release \<Rightarrow> release" where
  "after_supersede ds x = fold (\<lambda>d y. if same_key d y then superseded d else y) ds x"




section \<open>A release history and collaborators to run the action on\<close>

text \<open>
  The release \<open>app\<close> with its revisions 4 (superseded) and 5 (deployed), and clients whose
  update, wait and delete answer as given.
\<close>

definition app4 :: release where
  "app4 =
     \<lparr>Name = ''app'', Namespace = ''default'', Chart = ''web-1.0'', Config = ''replicas: 1'',
      Info = \<lparr>FirstDeployed = 100, LastDeployed = 400, Status = StatusSuperseded,
              Notes = ''notes of 4'', Description = ''Upgrade complete''\<rparr>,
      Version = 4, Manifest = ''manifest of 4'', Hooks = [''hook of 4'']\<rparr>"

definition app5 :: release where
  "app5 =
     \<lparr>Name = ''app'', Namespace = ''default'', Chart = ''web-1.1'', Config = ''replicas: 2'',
      Info = \<lparr>FirstDeployed = 100, LastDeployed = 500, Status = StatusDeployed,
              Notes = ''notes of 5'', Description = ''Upgrade complete''\<rparr>,
      Version = 5, Manifest = ''manifest of 5'', Hooks = [''hook of 5'']\<rparr>"

definition app_store :: storage where
  "app_store = \<lparr>releases = [app4, app5], MaxHistory = 0\<rparr>"

definition created_AB :: "resource_list \<Rightarrow> resource_list \<Rightarrow> kube_result" where
  "created_AB current target = \<lparr>Created = [''A'', ''B''], Updated = target, Deleted = current\<rparr>"

definition client_with ::
  "(resource_list \<Rightarrow> resource_list \<Rightarrow> bool \<Rightarrow> kube_result \<times> error option) \<Rightarrow>
   (resource_list \<Rightarrow> duration \<Rightarrow> error option) \<Rightarrow> (resource_list \<Rightarrow> error list option) \<Rightarrow>
   kube_client option \<Rightarrow> kube_client"
where
  "client_with upd wt del dri =
     KubeClientImpl None (\<lambda>manifest validate. Inr [manifest]) upd wt wt del dri"

definition good_client :: kube_client where
  "good_client =
     client_with (\<lambda>current target force. (created_AB current target, None))
       (\<lambda>target timeout. None) (\<lambda>resources. None) None"

definition dry_run_client :: kube_client where
  "dry_run_client =
     client_with (\<lambda>current target force. (created_AB current target, None))
       (\<lambda>target timeout. None) (\<lambda>resources. None) (Some good_client)"

definition failing_update_client :: kube_client where
  "failing_update_client =
     client_with (\<lambda>current target force. (created_AB current target, Some ''apply failed''))
       (\<lambda>target timeout. None) (\<lambda>resources. Some [''cannot delete B'']) None"

definition dry_run_failing_client :: kube_client where
  "dry_run_failing_client =
     client_with (\<lambda>current target force. (created_AB current target, None))
       (\<lambda>target timeout. None) (\<lambda>resources. None) (Some failing_update_client)"

definition failing_wait_client :: kube_client where
  "failing_wait_client =
     client_with (\<lambda>current target force. (created_AB current target, None))
       (\<lambda>target timeout. Some ''timed out waiting for the condition'') (\<lambda>resources. None) None"

definition app_cfg :: "kube_client \<Rightarrow> configuration" where
  "app_cfg client = \<lparr>KubeClient = client, Releases = app_store, calls = []\<rparr>"

definition app_env :: env where
  "app_env =
     \<lparr>ValidateReleaseName = (\<lambda>name. None), Now = 600,
      execHook = (\<lambda>rel event timeout. None), recreate = (\<lambda>resources. None)\<rparr>"

definition failing_hook_env :: env where
  "failing_hook_env =
     \<lparr>ValidateReleaseName = (\<lambda>name. None), Now = 600,
      execHook = (\<lambda>rel event timeout. Some ''hook failed''), recreate = (\<lambda>resources. None)\<rparr>"

definition failing_build_client :: "string \<Rightarrow> kube_client" where
  "failing_build_client bad =
     KubeClientImpl None
       (\<lambda>manifest validate. if manifest = bad then Inl ''bad manifest'' else Inr [manifest])
       (\<lambda>current target force. (created_AB current target, None))
       (\<lambda>target timeout. None) (\<lambda>target timeout. None) (\<lambda>resources. None) None"

definition failing_post_hook_env :: env where
  "failing_post_hook_env =
     \<lparr>ValidateReleaseName = (\<lambda>name. None), Now = 600,
      execHook = (\<lambda>rel event timeout.
                    case event of HookPreRollback \<Rightarrow> None
                    | HookPostRollback \<Rightarrow> Some ''post hook failed''),
      recreate = (\<lambda>resources. None)\<rparr>"

definition plain_rollback :: rollback where
  "plain_rollback =
     \<lparr>Version = 0, Timeout = 300, Wait = False, WaitForJobs = False, DisableHooks = False,
      DryRun = False, Recreate = False, Force = False, CleanupOnFail = False, MaxHistory = 10,
      ServerDryRun = False\<rparr>"

section \<open>Unfolding the model\<close>

lemmas example_defs = app4_def app5_def app_store_def created_AB_def client_with_def good_client_def
  app_cfg_def app_env_def plain_rollback_def

lemmas store_defs = storage_Last_def storage_Get_def storage_Create_def storage_Update_def
  storage_DeployedAll_def same_key_def later_release_def

lemmas action_defs = RunWithResult_def serverDryRunClient_def prepareRollback_def newTargetRelease_def
  previousVersion_def performRollback_def preRollbackHooks_def updateFailed_def updateSucceeded_def
  waitFailed_def postRollback_def returns_def Releases_Create_def Releases_Update_def
  recordRelease_def called_def SetStatus_def

section \<open>The store's answers\<close>

lemma foldl_later_release_mem: "foldl later_release x xs \<in> set (x # xs)"
  by (induction xs arbitrary: x) (auto simp: later_release_def)

lemma storage_Last_Name:
  assumes "storage_Last s name = Inr cur"
  shows "Name cur = name"
proof -
  from assms obtain x xs where f: "filter (\<lambda>rel. Name rel = name) (releases s) = x # xs"
    and c: "cur = foldl later_release x xs"
    by (auto simp: storage_Last_def split: list.splits)
  have "cur \<in> set (x # xs)" unfolding c by (rule foldl_later_release_mem)
  then have "cur \<in> set (filter (\<lambda>rel. Name rel = name) (releases s))" using f by simp
  then show ?thesis by simp
qed

lemma storage_Get_key:
  "storage_Get s name v = Inr prev \<Longrightarrow>
     Name prev = name \<and> release.Version prev = v \<and> prev \<in> set (releases s)"
  by (auto simp: storage_Get_def find_Some_iff split: option.splits)

lemma fmt_d_4: "fmt_d 4 = ''4''"
  by (simp add: fmt_d_def show_int_def show_nat.simps digit_def)

lemma storage_reads_MaxHistory [simp]:
  "storage_Last (s\<lparr>storage.MaxHistory := m\<rparr>) name = storage_Last s name"
  "storage_Get (s\<lparr>storage.MaxHistory := m\<rparr>) name v = storage_Get s name v"
  by (simp_all add: storage_Last_def storage_Get_def)

section \<open>What \<^verbatim>\<open>prepareRollback\<close> leaves behind\<close>

lemma prepareRollback_frame:
  assumes "prepareRollback e r cfg name = (cfg1, res)"
  shows "Releases cfg1 = Releases cfg \<and> KubeClient cfg1 = KubeClient cfg \<and>
         (\<exists>cs. calls cfg1 = calls cfg @ cs \<and> \<not> list_ex is_store_write cs)"
  using assms
  by (auto simp: prepareRollback_def called_def split: option.splits sum.splits if_splits)

lemma prepareRollback_success:
  assumes "ValidateReleaseName e name = None"
    and "\<not> sint (rollback.Version r) < 0"
    and "storage_Last (Releases cfg) name = Inr cur"
    and "storage_Get (Releases cfg) name (previousVersion r cur) = Inr prev"
  shows "prepareRollback e r cfg name =
           (cfg\<lparr>calls := calls cfg @ [StoreLast name, StoreGet name (previousVersion r cur)]\<rparr>,
            Inr (cur, newTargetRelease e name cur prev (previousVersion r cur)))"
  using assms by (simp add: prepareRollback_def called_def)

section \<open>Resolving the target of a rollback\<close>

text \<open>
  C1. Let the name be valid, the requested revision not negative, \<open>cur\<close> the latest
  release of the name, and \<open>prev\<close> the release the store holds at the designated
  revision. The designated revision is the requested one, or for a request of 0 the
  revision of \<open>cur\<close> minus one. \<^verbatim>\<open>prepareRollback\<close> then returns \<open>cur\<close> and a draft with
  the name and namespace of \<open>cur\<close>; the chart, config, manifest, hooks and notes of
  \<open>prev\<close>; the revision of \<open>cur\<close> plus one; the first deployment time of \<open>cur\<close>; the
  current time as last deployment time; the status pending-rollback; and the description
  "Rollback to" followed by the designated revision. Revisions are Go \<^verbatim>\<open>int\<close>s, so the
  sum and the difference are those of the machine.
\<close>

theorem prepareRollback_draft:
  assumes valid: "ValidateReleaseName e name = None"
    and nonneg: "\<not> sint (rollback.Version r) < 0"
    and last: "storage_Last (Releases cfg) name = Inr cur"
    and get: "storage_Get (Releases cfg) name (previousVersion r cur) = Inr prev"
  shows "previousVersion r cur =
           (if rollback.Version r = 0 then release.Version cur - 1 else rollback.Version r) \<and>
         Name prev = Name cur \<and> release.Version prev = previousVersion r cur \<and>
         (\<exists>tgt. snd (prepareRollback e r cfg name) = Inr (cur, tgt) \<and>
            Name tgt = Name cur \<and> Namespace tgt = Namespace cur \<and>
            Chart tgt = Chart prev \<and> Config tgt = Config prev \<and> Manifest tgt = Manifest prev \<and>
            Hooks tgt = Hooks prev \<and> Notes (Info tgt) = Notes (Info prev) \<and>
            release.Version tgt = release.Version cur + 1 \<and>
            FirstDeployed (Info tgt) = FirstDeployed (Info cur) \<and>
            LastDeployed (Info tgt) = Now e \<and>
            Status (Info tgt) = StatusPendingRollback \<and>
            Description (Info tgt) = ''Rollback to '' @ fmt_d (previousVersion r cur))"
proof -
  have n: "Name cur = name" using last by (rule storage_Last_Name)
  have k: "Name prev = name \<and> release.Version prev = previousVersion r cur"
    using storage_Get_key [OF get] by simp
  have p: "snd (prepareRollback e r cfg name) =
             Inr (cur, newTargetRelease e name cur prev (previousVersion r cur))"
    using valid nonneg last get by (simp add: prepareRollback_def)
  show ?thesis
    using n k p by (simp add: newTargetRelease_def previousVersion_def)
qed

theorem prepareRollback_draft_witness:
  "ValidateReleaseName app_env ''app'' = None \<and>
   storage_Last (Releases (app_cfg good_client)) ''app'' = Inr app5 \<and>
   storage_Get (Releases (app_cfg good_client)) ''app'' 4 = Inr app4 \<and>
   previousVersion plain_rollback app5 = 4 \<and>
   (\<exists>tgt. snd (prepareRollback app_env plain_rollback (app_cfg good_client) ''app'') =
             Inr (app5, tgt) \<and>
      Name tgt = ''app'' \<and> Namespace tgt = ''default'' \<and> Chart tgt = ''web-1.0'' \<and>
      release.Version tgt = 6 \<and> Status (Info tgt) = StatusPendingRollback \<and>
      Description (Info tgt) = ''Rollback to 4'')"
proof -
  have pv: "previousVersion plain_rollback app5 = 4"
    by (simp add: previousVersion_def plain_rollback_def app5_def)
  have valid: "ValidateReleaseName app_env ''app'' = None" by (simp add: app_env_def)
  have nonneg: "\<not> sint (rollback.Version plain_rollback) < 0" by (simp add: plain_rollback_def)
  have last: "storage_Last (Releases (app_cfg good_client)) ''app'' = Inr app5"
    by (simp add: example_defs store_defs)
  have get: "storage_Get (Releases (app_cfg good_client)) ''app''
               (previousVersion plain_rollback app5) = Inr app4"
    unfolding pv by (simp add: example_defs store_defs)
  show ?thesis
    using prepareRollback_draft [OF valid nonneg last get] valid last get pv
    by (auto simp: fmt_d_4 app4_def app5_def)
qed

text \<open>
  C9. A resolution at time \<open>t1\<close> that yields a current release and a draft leaves the
  store as it was, and a second resolution of the same name and options at time \<open>t2\<close>,
  on the configuration the first one left, yields the same current release and the same
  draft but for the last deployment time, which is \<open>t2\<close>.
\<close>

theorem prepareRollback_twice:
  assumes "prepareRollback (e\<lparr>Now := t1\<rparr>) r cfg name = (cfg1, Inr (cur1, tgt1))"
  shows "Releases cfg1 = Releases cfg \<and>
         (\<exists>cfg2. prepareRollback (e\<lparr>Now := t2\<rparr>) r cfg1 name =
            (cfg2, Inr (cur1, tgt1\<lparr>Info := (Info tgt1)\<lparr>LastDeployed := t2\<rparr>\<rparr>)))"
  using assms
  by (auto simp: prepareRollback_def called_def newTargetRelease_def
      split: option.splits sum.splits if_splits)

theorem prepareRollback_twice_witness:
  "prepareRollback (app_env\<lparr>Now := 600\<rparr>) plain_rollback (app_cfg good_client) ''app'' =
     ((app_cfg good_client)\<lparr>calls := [StoreLast ''app'', StoreGet ''app'' 4]\<rparr>,
      Inr (app5, newTargetRelease (app_env\<lparr>Now := 600\<rparr>) ''app'' app5 app4 4)) \<and>
   (\<exists>cfg2. prepareRollback (app_env\<lparr>Now := 700\<rparr>) plain_rollback
             ((app_cfg good_client)\<lparr>calls := [StoreLast ''app'', StoreGet ''app'' 4]\<rparr>) ''app'' =
     (cfg2,
      Inr (app5,
        (newTargetRelease (app_env\<lparr>Now := 600\<rparr>) ''app'' app5 app4 4)
          \<lparr>Info := (Info (newTargetRelease (app_env\<lparr>Now := 600\<rparr>) ''app'' app5 app4 4))
             \<lparr>LastDeployed := 700\<rparr>\<rparr>)))"
proof -
  have h: "prepareRollback (app_env\<lparr>Now := 600\<rparr>) plain_rollback (app_cfg good_client) ''app'' =
     ((app_cfg good_client)\<lparr>calls := [StoreLast ''app'', StoreGet ''app'' 4]\<rparr>,
      Inr (app5, newTargetRelease (app_env\<lparr>Now := 600\<rparr>) ''app'' app5 app4 4))"
    by (simp add: prepareRollback_def previousVersion_def called_def store_defs example_defs)
  show ?thesis using prepareRollback_twice [OF h, of 700] h by simp
qed

section \<open>The pre-flight\<close>

text \<open>
  C6. A server dry run asked of a client without the capability: \<^verbatim>\<open>RunWithResult\<close>
  returns the capability error and no result, and leaves the configuration as it was.
  The list of calls is unchanged, so \<^verbatim>\<open>IsReachable\<close> was not called, the store was
  neither read nor written, and the cluster received nothing.
\<close>

theorem server_dry_run_unsupported:
  assumes "ServerDryRun r" and "WithServerDryRun (KubeClient cfg) = None"
  shows "RunWithResult e r cfg name =
           (cfg, None, Some ''the kube client doesn't support server dry run'')"
  using assms by (simp add: RunWithResult_def serverDryRunClient_def)

theorem server_dry_run_unsupported_witness:
  "ServerDryRun (plain_rollback\<lparr>ServerDryRun := True\<rparr>) \<and>
   WithServerDryRun (KubeClient (app_cfg good_client)) = None \<and>
   RunWithResult app_env (plain_rollback\<lparr>ServerDryRun := True\<rparr>) (app_cfg good_client) ''app'' =
     (app_cfg good_client, None, Some ''the kube client doesn't support server dry run'') \<and>
   calls (app_cfg good_client) = []"
  using server_dry_run_unsupported
    [of "plain_rollback\<lparr>ServerDryRun := True\<rparr>" "app_cfg good_client" app_env "''app''"]
  by (simp add: example_defs)

section \<open>The client-side dry run\<close>

text \<open>
  C5, as the code has it. With \<open>DryRun\<close> set, \<^verbatim>\<open>performRollback\<close> returns the draft
  as it received it, with no result and no error, and calls nothing. \<^verbatim>\<open>RunWithResult\<close>
  returns no result and leaves the release records of the store as they were. Unless
  the run stops at a missing server-dry-run capability, its first call on the cluster
  client is \<^verbatim>\<open>IsReachable\<close>, and none of the calls after it creates or updates a
  release.
\<close>

theorem dry_run_effects:
  assumes "DryRun r"
  shows "performRollback e r cfg0 cur tgt = returns cfg0 cur tgt (Some tgt) None None \<and>
         fst (snd (RunWithResult e r cfg name)) = None \<and>
         releases (Releases (fst (RunWithResult e r cfg name))) = releases (Releases cfg) \<and>
         (if ServerDryRun r \<and> WithServerDryRun (KubeClient cfg) = None
          then calls (fst (RunWithResult e r cfg name)) = calls cfg
          else (\<exists>cs. calls (fst (RunWithResult e r cfg name)) =
                  calls cfg @ (if ServerDryRun r then [CallWithServerDryRun] else []) @
                    CallIsReachable # cs \<and>
                  \<not> list_ex is_store_write cs))"
proof -
  have p: "\<And>cfg0 cur tgt.
      performRollback e r cfg0 cur tgt = returns cfg0 cur tgt (Some tgt) None None"
    using assms by (simp add: performRollback_def)
  have a: "fst (snd (RunWithResult e r cfg name)) = None"
    using assms
    by (auto simp: RunWithResult_def p returns_def Let_def
        split: sum.splits option.splits prod.splits)
  have b: "releases (Releases (fst (RunWithResult e r cfg name))) = releases (Releases cfg)"
    using assms
    by (auto simp: RunWithResult_def serverDryRunClient_def p returns_def called_def Let_def
        split: sum.splits option.splits prod.splits if_splits dest!: prepareRollback_frame)
  have c: "(if ServerDryRun r \<and> WithServerDryRun (KubeClient cfg) = None
          then calls (fst (RunWithResult e r cfg name)) = calls cfg
          else (\<exists>cs. calls (fst (RunWithResult e r cfg name)) =
                  calls cfg @ (if ServerDryRun r then [CallWithServerDryRun] else []) @
                    CallIsReachable # cs \<and>
                  \<not> list_ex is_store_write cs))"
    using assms
    by (auto simp: RunWithResult_def serverDryRunClient_def p returns_def called_def Let_def
        split: sum.splits option.splits prod.splits if_splits dest!: prepareRollback_frame)
  show ?thesis using p a b c by simp
qed

theorem dry_run_effects_witness:
  "DryRun (plain_rollback\<lparr>DryRun := True\<rparr>) \<and>
   RunWithResult app_env (plain_rollback\<lparr>DryRun := True\<rparr>) (app_cfg good_client) ''app'' =
     ((app_cfg good_client)
        \<lparr>Releases := app_store\<lparr>storage.MaxHistory := 10\<rparr>,
         calls := [CallIsReachable, StoreLast ''app'', StoreGet ''app'' 4]\<rparr>, None, None) \<and>
   performRollback app_env (plain_rollback\<lparr>DryRun := True\<rparr>) (app_cfg good_client) app5 app4 =
     returns (app_cfg good_client) app5 app4 (Some app4) None None"
proof -
  have d: "DryRun (plain_rollback\<lparr>DryRun := True\<rparr>)" by simp
  have run:
    "RunWithResult app_env (plain_rollback\<lparr>DryRun := True\<rparr>) (app_cfg good_client) ''app'' =
     ((app_cfg good_client)
        \<lparr>Releases := app_store\<lparr>storage.MaxHistory := 10\<rparr>,
         calls := [CallIsReachable, StoreLast ''app'', StoreGet ''app'' 4]\<rparr>, None, None)"
    by (simp add: action_defs store_defs example_defs Let_def)
  show ?thesis
    using dry_run_effects
      [OF d, of app_env "app_cfg good_client" app5 app4 "app_cfg good_client" "''app''"] run
    by simp
qed

text \<open>
  C5, as the claim has it, fails: a dry run of the rollback of \<open>app\<close> calls
  \<^verbatim>\<open>IsReachable\<close> first.
\<close>

theorem dry_run_calls_IsReachable:
  "DryRun (plain_rollback\<lparr>DryRun := True\<rparr>) \<and>
   calls (fst (RunWithResult app_env (plain_rollback\<lparr>DryRun := True\<rparr>)
                 (app_cfg good_client) ''app'')) =
     [CallIsReachable, StoreLast ''app'', StoreGet ''app'' 4]"
  by (simp add: action_defs store_defs example_defs Let_def)

section \<open>What the entry point returns\<close>

text \<open>
  C10. When \<^verbatim>\<open>RunWithResult\<close> returns an error it returns no result: the result of
  a failed update, which \<^verbatim>\<open>performRollback\<close> hands back, does not reach the caller.
\<close>

theorem RunWithResult_error_no_result:
  "snd (snd (RunWithResult e r cfg name)) = Some err \<Longrightarrow>
     fst (snd (RunWithResult e r cfg name)) = None"
  by (auto simp: RunWithResult_def Let_def split: sum.splits option.splits prod.splits if_splits)

theorem RunWithResult_error_no_result_witness:
  "snd (snd (RunWithResult app_env plain_rollback (app_cfg failing_update_client) ''app'')) =
     Some ''apply failed'' \<and>
   fst (snd (RunWithResult app_env plain_rollback (app_cfg failing_update_client) ''app'')) =
     None \<and>
   ret_result (performRollback app_env plain_rollback (app_cfg failing_update_client) app5
                 (newTargetRelease app_env ''app'' app5 app4 4)) =
     Some (created_AB [''manifest of 5''] [''manifest of 4''])"
proof -
  have h:
    "snd (snd (RunWithResult app_env plain_rollback (app_cfg failing_update_client) ''app'')) =
       Some ''apply failed''"
    by (simp add: action_defs store_defs example_defs failing_update_client_def Let_def)
  have p:
    "ret_result (performRollback app_env plain_rollback (app_cfg failing_update_client) app5
                   (newTargetRelease app_env ''app'' app5 app4 4)) =
       Some (created_AB [''manifest of 5''] [''manifest of 4''])"
    by (simp add: action_defs store_defs example_defs failing_update_client_def Let_def)
  show ?thesis using RunWithResult_error_no_result [OF h] h p by simp
qed

section \<open>Texts that contain texts\<close>

lemma Contains_prefix: "prefix sub s \<Longrightarrow> Contains s sub"
  by (cases s) auto

lemma Contains_middle: "Contains (a @ b @ c) b"
proof (induction a)
  case Nil
  show ?case by (simp add: Contains_prefix)
next
  case (Cons x a)
  then show ?case by simp
qed

lemma Contains_suffix: "Contains (a @ b) b"
  using Contains_middle [of a b "[]"] by simp

section \<open>\<^verbatim>\<open>performRollback\<close> up to the update of the cluster\<close>

text \<open>
  When the run is not a client-side dry run, both manifests build and the pre-rollback
  hooks pass or are skipped, \<^verbatim>\<open>performRollback\<close> is what follows the update, on the
  configuration that has received the two builds, the hook and the update.
\<close>

lemma performRollback_update:
  assumes "\<not> DryRun r"
    and "Build (KubeClient cfg) (Manifest cur) False = Inr current"
    and "Build (KubeClient cfg) (Manifest tgt) False = Inr target"
    and "ServerDryRun r \<or> DisableHooks r \<or> execHook e tgt HookPreRollback (Timeout r) = None"
    and "Update (KubeClient cfg) current target (Force r) = (results, err)"
  shows "performRollback e r cfg cur tgt =
           (case err of
              Some msg \<Rightarrow>
                updateFailed r
                  (cfg\<lparr>calls := calls cfg @ [CallBuild (Manifest cur), CallBuild (Manifest tgt)] @
                     (if ServerDryRun r \<or> DisableHooks r then []
                      else [CallExecHook tgt HookPreRollback (Timeout r)]) @
                     [CallUpdate current target (Force r)]\<rparr>)
                  cur tgt results msg
            | None \<Rightarrow>
                updateSucceeded e r
                  (cfg\<lparr>calls := calls cfg @ [CallBuild (Manifest cur), CallBuild (Manifest tgt)] @
                     (if ServerDryRun r \<or> DisableHooks r then []
                      else [CallExecHook tgt HookPreRollback (Timeout r)]) @
                     [CallUpdate current target (Force r)]\<rparr>)
                  cur tgt target results)"
  using assms
  by (auto simp: performRollback_def preRollbackHooks_def called_def split: option.splits)

lemma recordRelease_fields [simp]:
  "calls (recordRelease cfg rel) = calls cfg @ [StoreUpdate rel]"
  "KubeClient (recordRelease cfg rel) = KubeClient cfg"
  "Releases (recordRelease cfg rel) = fst (storage_Update (Releases cfg) rel)"
  by (simp_all add: recordRelease_def Releases_Update_def called_def split: prod.splits)

section \<open>The update of the cluster fails\<close>

text \<open>
  C2, as the code has it. Let the update of the cluster return the error \<open>msg\<close> with
  the result \<open>results\<close>. The current release gets the status superseded, the target
  the status failed and the description "Rollback", its quoted name, "failed:" and
  \<open>msg\<close>. In a server dry run nothing more is called and the store keeps its records.
  Otherwise both releases are written to the store with \<open>Update\<close>, current first, and
  with \<open>CleanupOnFail\<close> the created resources of \<open>results\<close> are then deleted in one
  call. The returned error contains \<open>msg\<close> in every case: it is \<open>msg\<close> itself and comes
  with \<open>results\<close> when nothing was deleted or the deletion returned no errors, and when
  the deletion returned errors it also contains their texts joined by a comma and a
  space, and comes with no result.
\<close>

theorem update_failure:
  assumes "\<not> DryRun r"
    and "Build (KubeClient cfg) (Manifest cur) False = Inr current"
    and "Build (KubeClient cfg) (Manifest tgt) False = Inr target"
    and "ServerDryRun r \<or> DisableHooks r \<or> execHook e tgt HookPreRollback (Timeout r) = None"
    and "Update (KubeClient cfg) current target (Force r) = (results, Some msg)"
  shows "out_current (performRollback e r cfg cur tgt) =
           cur\<lparr>Info := (Info cur)\<lparr>Status := StatusSuperseded\<rparr>\<rparr> \<and>
         out_target (performRollback e r cfg cur tgt) =
           tgt\<lparr>Info := (Info tgt)\<lparr>Status := StatusFailed,
                  Description := ''Rollback '' @ fmt_q (Name tgt) @ '' failed: '' @ msg\<rparr>\<rparr> \<and>
         calls (out_cfg (performRollback e r cfg cur tgt)) =
           calls cfg @ [CallBuild (Manifest cur), CallBuild (Manifest tgt)] @
             (if ServerDryRun r \<or> DisableHooks r then []
              else [CallExecHook tgt HookPreRollback (Timeout r)]) @
             [CallUpdate current target (Force r)] @
             (if ServerDryRun r then []
              else [StoreUpdate (out_current (performRollback e r cfg cur tgt)),
                    StoreUpdate (out_target (performRollback e r cfg cur tgt))] @
                   (if CleanupOnFail r then [CallDelete (Created results)] else [])) \<and>
         Releases (out_cfg (performRollback e r cfg cur tgt)) =
           (if ServerDryRun r then Releases cfg
            else fst (storage_Update
                        (fst (storage_Update (Releases cfg)
                                (out_current (performRollback e r cfg cur tgt))))
                        (out_target (performRollback e r cfg cur tgt)))) \<and>
         (\<exists>w. ret_err (performRollback e r cfg cur tgt) = Some w \<and> Contains w msg \<and>
            (case (if \<not> ServerDryRun r \<and> CleanupOnFail r
                   then Delete (KubeClient cfg) (Created results) else None) of
               Some errs \<Rightarrow>
                 Contains w (Join errs '', '') \<and> ret_result (performRollback e r cfg cur tgt) = None
             | None \<Rightarrow>
                 w = msg \<and> ret_result (performRollback e r cfg cur tgt) = Some results))"
proof -
  have c1: "Contains (''an error occurred while cleaning up resources. original rollback error: '' @ msg @ '': '' @ x) msg" for x
    by (rule Contains_middle)
  have c2: "Contains (''an error occurred while cleaning up resources. original rollback error: '' @ msg @ '': unable to cleanup resources: '' @ x) x" for x
    using Contains_suffix [of "''an error occurred while cleaning up resources. original rollback error: '' @ msg @ '': unable to cleanup resources: ''" x]
    by simp
  have c3: "Contains msg msg" using Contains_suffix [of "[]" msg] by simp
  show ?thesis
    unfolding performRollback_update [OF assms]
    using c1 c2 c3
    by (simp add: updateFailed_def returns_def Let_def called_def errors_Wrap_def split: option.splits)
qed

theorem update_failure_witness:
  "Update (KubeClient (app_cfg failing_update_client)) [''manifest of 5''] [''manifest of 4'']
     (Force (plain_rollback\<lparr>CleanupOnFail := True\<rparr>)) =
     (created_AB [''manifest of 5''] [''manifest of 4''], Some ''apply failed'') \<and>
   Status (Info (out_current (performRollback app_env (plain_rollback\<lparr>CleanupOnFail := True\<rparr>)
      (app_cfg failing_update_client) app5 (newTargetRelease app_env ''app'' app5 app4 4)))) =
     StatusSuperseded \<and>
   Status (Info (out_target (performRollback app_env (plain_rollback\<lparr>CleanupOnFail := True\<rparr>)
      (app_cfg failing_update_client) app5 (newTargetRelease app_env ''app'' app5 app4 4)))) =
     StatusFailed \<and>
   ret_err (performRollback app_env (plain_rollback\<lparr>CleanupOnFail := True\<rparr>)
      (app_cfg failing_update_client) app5 (newTargetRelease app_env ''app'' app5 app4 4)) =
     Some ''an error occurred while cleaning up resources. original rollback error: apply failed: unable to cleanup resources: cannot delete B'' \<and>
   last (calls (out_cfg (performRollback app_env (plain_rollback\<lparr>CleanupOnFail := True\<rparr>)
      (app_cfg failing_update_client) app5 (newTargetRelease app_env ''app'' app5 app4 4)))) =
     CallDelete [''A'', ''B'']"
proof -
  have a: "\<not> DryRun (plain_rollback\<lparr>CleanupOnFail := True\<rparr>)"
    by (simp add: plain_rollback_def)
  have b1: "Build (KubeClient (app_cfg failing_update_client)) (Manifest app5) False =
              Inr [''manifest of 5'']"
    by (simp add: example_defs failing_update_client_def)
  have b2: "Build (KubeClient (app_cfg failing_update_client))
              (Manifest (newTargetRelease app_env ''app'' app5 app4 4)) False =
              Inr [''manifest of 4'']"
    by (simp add: example_defs failing_update_client_def newTargetRelease_def)
  have h: "ServerDryRun (plain_rollback\<lparr>CleanupOnFail := True\<rparr>) \<or>
           DisableHooks (plain_rollback\<lparr>CleanupOnFail := True\<rparr>) \<or>
           execHook app_env (newTargetRelease app_env ''app'' app5 app4 4) HookPreRollback
             (Timeout (plain_rollback\<lparr>CleanupOnFail := True\<rparr>)) = None"
    by (simp add: app_env_def)
  have u: "Update (KubeClient (app_cfg failing_update_client)) [''manifest of 5'']
             [''manifest of 4''] (Force (plain_rollback\<lparr>CleanupOnFail := True\<rparr>)) =
             (created_AB [''manifest of 5''] [''manifest of 4''], Some ''apply failed'')"
    by (simp add: app_cfg_def failing_update_client_def client_with_def)
  have d: "Delete (KubeClient (app_cfg failing_update_client)) [''A'', ''B''] =
             Some [''cannot delete B'']"
    by (simp add: app_cfg_def failing_update_client_def client_with_def)
  have c: "Created (created_AB [''manifest of 5''] [''manifest of 4'']) = [''A'', ''B'']"
    by (simp add: created_AB_def)
  have e: "ret_err (performRollback app_env (plain_rollback\<lparr>CleanupOnFail := True\<rparr>)
      (app_cfg failing_update_client) app5 (newTargetRelease app_env ''app'' app5 app4 4)) =
     Some ''an error occurred while cleaning up resources. original rollback error: apply failed: unable to cleanup resources: cannot delete B''"
    by (simp add: action_defs store_defs example_defs failing_update_client_def errors_Wrap_def Let_def)
  show ?thesis
    using update_failure [OF a b1 b2 h u] u d c e
    by (simp add: plain_rollback_def)
qed

text \<open>
  C2, as the claim has it, fails: in a server dry run with \<open>CleanupOnFail\<close> whose update
  fails after creating \<open>A\<close> and \<open>B\<close>, the update is the last call and nothing is deleted.
\<close>

theorem server_dry_run_failure_no_cleanup:
  "ServerDryRun (plain_rollback\<lparr>ServerDryRun := True, CleanupOnFail := True\<rparr>) \<and>
   CleanupOnFail (plain_rollback\<lparr>ServerDryRun := True, CleanupOnFail := True\<rparr>) \<and>
   RunWithResult app_env (plain_rollback\<lparr>ServerDryRun := True, CleanupOnFail := True\<rparr>)
     (app_cfg dry_run_failing_client) ''app'' =
     (\<lparr>KubeClient = failing_update_client, Releases = app_store\<lparr>storage.MaxHistory := 10\<rparr>,
       calls = [CallWithServerDryRun, CallIsReachable, StoreLast ''app'', StoreGet ''app'' 4,
                CallBuild ''manifest of 5'', CallBuild ''manifest of 4'',
                CallUpdate [''manifest of 5''] [''manifest of 4''] False]\<rparr>,
      None, Some ''apply failed'') \<and>
   Update failing_update_client [''manifest of 5''] [''manifest of 4''] False =
     (\<lparr>Created = [''A'', ''B''], Updated = [''manifest of 4''], Deleted = [''manifest of 5'']\<rparr>,
      Some ''apply failed'')"
  by (simp add: action_defs store_defs example_defs dry_run_failing_client_def failing_update_client_def Let_def)

section \<open>Waiting for the target fails\<close>

text \<open>
  C3. Let the update succeed outside a dry run, \<open>Wait\<close> be set and the wait (with jobs
  or without) return the error \<open>err\<close>. The current release is as it was, the target
  has the status failed (and the failure as description), no result is returned, and the
  error is "release", the name, "failed:" and \<open>err\<close>. After the wait the only calls are
  two updates of the store, of the current release as it was read and of the failed
  target: nothing is deleted, whatever \<open>CleanupOnFail\<close> says.
\<close>

theorem wait_failure:
  assumes "\<not> DryRun r" and "\<not> ServerDryRun r"
    and "Build (KubeClient cfg) (Manifest cur) False = Inr current"
    and "Build (KubeClient cfg) (Manifest tgt) False = Inr target"
    and "DisableHooks r \<or> execHook e tgt HookPreRollback (Timeout r) = None"
    and "Update (KubeClient cfg) current target (Force r) = (results, None)"
    and "rollback.Wait r"
    and "(if WaitForJobs r then WaitWithJobs (KubeClient cfg) target (Timeout r)
          else kube_client.Wait (KubeClient cfg) target (Timeout r)) = Some err"
  shows "out_current (performRollback e r cfg cur tgt) = cur \<and>
         out_target (performRollback e r cfg cur tgt) =
           tgt\<lparr>Info := (Info tgt)\<lparr>Status := StatusFailed,
                  Description := ''Release '' @ fmt_q (Name tgt) @ '' failed: '' @ err\<rparr>\<rparr> \<and>
         ret_err (performRollback e r cfg cur tgt) =
           Some (''release '' @ Name tgt @ '' failed: '' @ err) \<and>
         ret_result (performRollback e r cfg cur tgt) = None \<and>
         calls (out_cfg (performRollback e r cfg cur tgt)) =
           calls cfg @ [CallBuild (Manifest cur), CallBuild (Manifest tgt)] @
             (if DisableHooks r then [] else [CallExecHook tgt HookPreRollback (Timeout r)]) @
             [CallUpdate current target (Force r)] @
             (if Recreate r then [CallRecreate (Updated results)] else []) @
             [if WaitForJobs r then CallWaitWithJobs target (Timeout r)
              else CallWait target (Timeout r),
              StoreUpdate cur,
              StoreUpdate (out_target (performRollback e r cfg cur tgt))] \<and>
         Releases (out_cfg (performRollback e r cfg cur tgt)) =
           fst (storage_Update (fst (storage_Update (Releases cfg) cur))
                  (out_target (performRollback e r cfg cur tgt)))"
proof -
  have h: "ServerDryRun r \<or> DisableHooks r \<or> execHook e tgt HookPreRollback (Timeout r) = None"
    using assms(5) by blast
  show ?thesis
    unfolding performRollback_update [OF assms(1) assms(3) assms(4) h assms(6)]
    using assms(2) assms(7) assms(8)
    by (auto simp: updateSucceeded_def waitFailed_def returns_def Let_def called_def
        errors_Wrap_def SetStatus_def split: if_splits)
qed

theorem wait_failure_witness:
  "rollback.Wait (plain_rollback\<lparr>rollback.Wait := True, CleanupOnFail := True\<rparr>) \<and>
   kube_client.Wait (KubeClient (app_cfg failing_wait_client)) [''manifest of 4''] 300 =
     Some ''timed out waiting for the condition'' \<and>
   out_current (performRollback app_env (plain_rollback\<lparr>rollback.Wait := True, CleanupOnFail := True\<rparr>)
      (app_cfg failing_wait_client) app5 (newTargetRelease app_env ''app'' app5 app4 4)) = app5 \<and>
   Status (Info (out_target (performRollback app_env
      (plain_rollback\<lparr>rollback.Wait := True, CleanupOnFail := True\<rparr>)
      (app_cfg failing_wait_client) app5 (newTargetRelease app_env ''app'' app5 app4 4)))) =
     StatusFailed \<and>
   ret_err (performRollback app_env (plain_rollback\<lparr>rollback.Wait := True, CleanupOnFail := True\<rparr>)
      (app_cfg failing_wait_client) app5 (newTargetRelease app_env ''app'' app5 app4 4)) =
     Some ''release app failed: timed out waiting for the condition'' \<and>
   calls (out_cfg (performRollback app_env (plain_rollback\<lparr>rollback.Wait := True, CleanupOnFail := True\<rparr>)
      (app_cfg failing_wait_client) app5 (newTargetRelease app_env ''app'' app5 app4 4))) =
     [CallBuild ''manifest of 5'', CallBuild ''manifest of 4'',
      CallExecHook (newTargetRelease app_env ''app'' app5 app4 4) HookPreRollback 300,
      CallUpdate [''manifest of 5''] [''manifest of 4''] False,
      CallWait [''manifest of 4''] 300,
      StoreUpdate app5,
      StoreUpdate (SetStatus (newTargetRelease app_env ''app'' app5 app4 4) StatusFailed
        (''Release '' @ fmt_q ''app'' @ '' failed: timed out waiting for the condition''))]"
proof -
  have a: "\<not> DryRun (plain_rollback\<lparr>rollback.Wait := True, CleanupOnFail := True\<rparr>)"
    by (simp add: plain_rollback_def)
  have a2: "\<not> ServerDryRun (plain_rollback\<lparr>rollback.Wait := True, CleanupOnFail := True\<rparr>)"
    by (simp add: plain_rollback_def)
  have b1: "Build (KubeClient (app_cfg failing_wait_client)) (Manifest app5) False =
              Inr [''manifest of 5'']"
    by (simp add: example_defs failing_wait_client_def)
  have b2: "Build (KubeClient (app_cfg failing_wait_client))
              (Manifest (newTargetRelease app_env ''app'' app5 app4 4)) False =
              Inr [''manifest of 4'']"
    by (simp add: example_defs failing_wait_client_def newTargetRelease_def)
  have h: "DisableHooks (plain_rollback\<lparr>rollback.Wait := True, CleanupOnFail := True\<rparr>) \<or>
           execHook app_env (newTargetRelease app_env ''app'' app5 app4 4) HookPreRollback
             (Timeout (plain_rollback\<lparr>rollback.Wait := True, CleanupOnFail := True\<rparr>)) = None"
    by (simp add: app_env_def)
  have u: "Update (KubeClient (app_cfg failing_wait_client)) [''manifest of 5'']
             [''manifest of 4''] (Force (plain_rollback\<lparr>rollback.Wait := True, CleanupOnFail := True\<rparr>)) =
             (created_AB [''manifest of 5''] [''manifest of 4''], None)"
    by (simp add: app_cfg_def failing_wait_client_def client_with_def)
  have w: "rollback.Wait (plain_rollback\<lparr>rollback.Wait := True, CleanupOnFail := True\<rparr>)"
    by simp
  have f: "(if WaitForJobs (plain_rollback\<lparr>rollback.Wait := True, CleanupOnFail := True\<rparr>)
            then WaitWithJobs (KubeClient (app_cfg failing_wait_client)) [''manifest of 4'']
                   (Timeout (plain_rollback\<lparr>rollback.Wait := True, CleanupOnFail := True\<rparr>))
            else kube_client.Wait (KubeClient (app_cfg failing_wait_client)) [''manifest of 4'']
                   (Timeout (plain_rollback\<lparr>rollback.Wait := True, CleanupOnFail := True\<rparr>))) =
           Some ''timed out waiting for the condition''"
    by (simp add: app_cfg_def failing_wait_client_def client_with_def)
  have k: "kube_client.Wait (KubeClient (app_cfg failing_wait_client)) [''manifest of 4''] 300 =
     Some ''timed out waiting for the condition''"
    by (simp add: app_cfg_def failing_wait_client_def client_with_def)
  show ?thesis
    using wait_failure [OF a a2 b1 b2 h u w f] k
    by (simp add: plain_rollback_def app_cfg_def newTargetRelease_def SetStatus_def app4_def
        app5_def created_AB_def fmt_q_def)
qed

section \<open>The status of the target after a failure\<close>

lemma no_deployed_sentinel:
  "Contains (fmt_q name @ '' has no deployed releases'') ''has no deployed releases''"
  using Contains_suffix [of "fmt_q name @ '' ''" "''has no deployed releases''"] by simp

lemma updateFailed_outcome:
  "ret_err (updateFailed r cfg cur tgt results msg) \<noteq> None \<and>
   Status (Info (out_target (updateFailed r cfg cur tgt results msg))) = StatusFailed \<and>
   (if ServerDryRun r then out_cfg (updateFailed r cfg cur tgt results msg) = cfg
    else (\<exists>cs. calls (out_cfg (updateFailed r cfg cur tgt results msg)) =
                  calls cfg @
                  StoreUpdate (out_current (updateFailed r cfg cur tgt results msg)) #
                  StoreUpdate (out_target (updateFailed r cfg cur tgt results msg)) # cs \<and>
                \<not> list_ex is_store_write cs) \<and>
         Releases (out_cfg (updateFailed r cfg cur tgt results msg)) =
           fst (storage_Update
                  (fst (storage_Update (Releases cfg)
                          (out_current (updateFailed r cfg cur tgt results msg))))
                  (out_target (updateFailed r cfg cur tgt results msg))))"
  by (auto simp: updateFailed_def returns_def called_def Let_def split: option.splits)

lemma waitFailed_outcome:
  "ret_err (waitFailed cfg cur tgt err) \<noteq> None \<and>
   Status (Info (out_target (waitFailed cfg cur tgt err))) = StatusFailed \<and>
   calls (out_cfg (waitFailed cfg cur tgt err)) =
     calls cfg @ [StoreUpdate cur, StoreUpdate (out_target (waitFailed cfg cur tgt err))] \<and>
   out_current (waitFailed cfg cur tgt err) = cur \<and>
   Releases (out_cfg (waitFailed cfg cur tgt err)) =
     fst (storage_Update (fst (storage_Update (Releases cfg) cur))
            (out_target (waitFailed cfg cur tgt err)))"
  by (auto simp: waitFailed_def returns_def SetStatus_def Let_def)

lemma postRollback_outcome:
  "if \<not> DisableHooks r \<and> execHook e tgt HookPostRollback (Timeout r) \<noteq> None
   then ret_err (postRollback e r cfg cur tgt results) =
          execHook e tgt HookPostRollback (Timeout r) \<and>
        Status (Info (out_target (postRollback e r cfg cur tgt results))) = Status (Info tgt)
   else ret_err (postRollback e r cfg cur tgt results) = None"
  using no_deployed_sentinel [of "Name cur"]
  by (auto simp: postRollback_def returns_def called_def Let_def storage_DeployedAll_def
      split: option.splits prod.splits list.splits)

text \<open>
  C4, as the code has it: what \<^verbatim>\<open>performRollback\<close> returns, cause by cause, in the order
  the code meets the causes. A client-side dry run returns no error. A manifest that
  does not build, and a pre-rollback hook that fails, return the error with the status of
  the target as it was. An update of the cluster that fails returns an error with the
  target failed; in a server dry run the store is as it was, and otherwise the failed
  target is written to the store, after the current release, by the last \<open>Update\<close> of
  the run. After an update that succeeds a server dry run returns no error; a wait that
  fails returns an error with the target failed and written to the store in the same
  way; a post-rollback hook that fails returns its error with the status of the target
  as it was; and in every other case no error is returned.
\<close>

theorem failure_status:
  fixes e r cfg cur tgt
  defines "p \<equiv> performRollback e r cfg cur tgt"
  shows
    "if DryRun r then ret_err p = None
     else
       (case Build (KubeClient cfg) (Manifest cur) False of
          Inl berr \<Rightarrow> ret_err p \<noteq> None \<and> Status (Info (out_target p)) = Status (Info tgt)
        | Inr current \<Rightarrow>
            (case Build (KubeClient cfg) (Manifest tgt) False of
               Inl berr \<Rightarrow> ret_err p \<noteq> None \<and> Status (Info (out_target p)) = Status (Info tgt)
             | Inr target \<Rightarrow>
                 if \<not> ServerDryRun r \<and> \<not> DisableHooks r \<and>
                    execHook e tgt HookPreRollback (Timeout r) \<noteq> None
                 then ret_err p = execHook e tgt HookPreRollback (Timeout r) \<and>
                      Status (Info (out_target p)) = Status (Info tgt)
                 else
                   (case Update (KubeClient cfg) current target (Force r) of
                      (results, Some msg) \<Rightarrow>
                        ret_err p \<noteq> None \<and> Status (Info (out_target p)) = StatusFailed \<and>
                        (if ServerDryRun r then Releases (out_cfg p) = Releases cfg
                         else (\<exists>cs cs'. calls (out_cfg p) =
                                          calls cfg @ cs @ StoreUpdate (out_target p) # cs' \<and>
                                        \<not> list_ex is_store_write cs') \<and>
                              Releases (out_cfg p) =
                                fst (storage_Update
                                       (fst (storage_Update (Releases cfg) (out_current p)))
                                       (out_target p)))
                    | (results, None) \<Rightarrow>
                        if ServerDryRun r then ret_err p = None
                        else if rollback.Wait r \<and>
                                (if WaitForJobs r
                                 then WaitWithJobs (KubeClient cfg) target (Timeout r)
                                 else kube_client.Wait (KubeClient cfg) target (Timeout r)) \<noteq> None
                        then ret_err p \<noteq> None \<and>
                             Status (Info (out_target p)) = StatusFailed \<and>
                             (\<exists>cs cs'. calls (out_cfg p) =
                                         calls cfg @ cs @ StoreUpdate (out_target p) # cs' \<and>
                                       \<not> list_ex is_store_write cs') \<and>
                             Releases (out_cfg p) =
                               fst (storage_Update
                                      (fst (storage_Update (Releases cfg) (out_current p)))
                                      (out_target p))
                        else if \<not> DisableHooks r \<and>
                                execHook e tgt HookPostRollback (Timeout r) \<noteq> None
                        then ret_err p = execHook e tgt HookPostRollback (Timeout r) \<and>
                             Status (Info (out_target p)) = Status (Info tgt)
                        else ret_err p = None)))"
proof (cases "DryRun r")
  case True
  then show ?thesis by (simp add: p_def performRollback_def returns_def)
next
  case nodry: False
  show ?thesis
  proof (cases "Build (KubeClient cfg) (Manifest cur) False")
    case (Inl berr)
    then show ?thesis
      using nodry by (simp add: p_def performRollback_def returns_def)
  next
    case b1: (Inr current)
    show ?thesis
    proof (cases "Build (KubeClient cfg) (Manifest tgt) False")
      case (Inl berr)
      then show ?thesis
        using nodry b1 by (simp add: p_def performRollback_def returns_def)
    next
      case b2: (Inr target)
      show ?thesis
      proof (cases "ServerDryRun r \<or> DisableHooks r \<or>
                    execHook e tgt HookPreRollback (Timeout r) = None")
        case False
        then show ?thesis
          using nodry b1 b2
          by (auto simp: p_def performRollback_def preRollbackHooks_def returns_def)
      next
        case hook: True
        obtain results uerr where
          upd: "Update (KubeClient cfg) current target (Force r) = (results, uerr)"
          by (cases "Update (KubeClient cfg) current target (Force r)") blast
        define pre where
          "pre = [CallBuild (Manifest cur), CallBuild (Manifest tgt)] @
                   (if ServerDryRun r \<or> DisableHooks r then []
                    else [CallExecHook tgt HookPreRollback (Timeout r)]) @
                   [CallUpdate current target (Force r)]"
        define cfgU where "cfgU = cfg\<lparr>calls := calls cfg @ pre\<rparr>"
        have cU: "calls cfgU = calls cfg @ pre" and rU: "Releases cfgU = Releases cfg"
          and kU: "KubeClient cfgU = KubeClient cfg"
          by (simp_all add: cfgU_def)
        show ?thesis
        proof (cases uerr)
          case (Some msg)
          have eq: "p = updateFailed r cfgU cur tgt results msg"
            using performRollback_update [OF nodry b1 b2 hook upd] Some
            by (simp add: p_def cfgU_def pre_def)
          have out: "ret_err p \<noteq> None \<and> Status (Info (out_target p)) = StatusFailed \<and>
             (if ServerDryRun r then out_cfg p = cfgU
              else (\<exists>cs. calls (out_cfg p) =
                      calls cfgU @ StoreUpdate (out_current p) # StoreUpdate (out_target p) # cs \<and>
                      \<not> list_ex is_store_write cs) \<and>
                   Releases (out_cfg p) =
                     fst (storage_Update (fst (storage_Update (Releases cfgU) (out_current p)))
                            (out_target p)))"
            unfolding eq by (rule updateFailed_outcome)
          have persisted: "(\<exists>cs cs'. calls (out_cfg p) =
                              calls cfg @ cs @ StoreUpdate (out_target p) # cs' \<and>
                              \<not> list_ex is_store_write cs') \<and>
                           Releases (out_cfg p) =
                             fst (storage_Update
                                    (fst (storage_Update (Releases cfg) (out_current p)))
                                    (out_target p))"
            if nosdr: "\<not> ServerDryRun r"
          proof -
            from out nosdr obtain cs where
              c: "calls (out_cfg p) =
                    calls cfgU @ StoreUpdate (out_current p) # StoreUpdate (out_target p) # cs"
              and n: "\<not> list_ex is_store_write cs"
              and s: "Releases (out_cfg p) =
                        fst (storage_Update (fst (storage_Update (Releases cfgU) (out_current p)))
                               (out_target p))"
              by auto
            have "calls (out_cfg p) =
                    calls cfg @ (pre @ [StoreUpdate (out_current p)]) @
                      StoreUpdate (out_target p) # cs"
              using c cU by simp
            then have "\<exists>cs cs'. calls (out_cfg p) =
                              calls cfg @ cs @ StoreUpdate (out_target p) # cs' \<and>
                              \<not> list_ex is_store_write cs'"
              using n by blast
            then show ?thesis using s rU by simp
          qed
          have sdr: "Releases (out_cfg p) = Releases cfg" if "ServerDryRun r"
            using out that rU by simp
          show ?thesis
            using nodry b1 b2 hook upd Some out persisted sdr by auto
        next
          case None
          have eq: "p = updateSucceeded e r cfgU cur tgt target results"
            using performRollback_update [OF nodry b1 b2 hook upd] None
            by (simp add: p_def cfgU_def pre_def)
          show ?thesis
          proof (cases "ServerDryRun r")
            case True
            then have "ret_err p = None"
              unfolding eq by (simp add: updateSucceeded_def returns_def Let_def)
            then show ?thesis
              using nodry b1 b2 hook upd None True by auto
          next
            case nosdr: False
            define rec where
              "rec = (if Recreate r then [CallRecreate (Updated results)] else [])"
            define wcall where
              "wcall = (if WaitForJobs r then CallWaitWithJobs target (Timeout r)
                        else CallWait target (Timeout r))"
            define wres where
              "wres = (if WaitForJobs r then WaitWithJobs (KubeClient cfg) target (Timeout r)
                       else kube_client.Wait (KubeClient cfg) target (Timeout r))"
            show ?thesis
            proof (cases "rollback.Wait r \<and> wres \<noteq> None")
              case True
              then obtain werr where w: "wres = Some werr" and wt: "rollback.Wait r" by auto
              define cfgW where "cfgW = cfg\<lparr>calls := calls cfg @ pre @ rec @ [wcall]\<rparr>"
              have eqw: "p = waitFailed cfgW cur tgt werr"
                unfolding eq using nosdr wt w
                by (auto simp: updateSucceeded_def called_def Let_def cfgU_def cfgW_def rec_def
                    wcall_def wres_def split: if_splits)
              have out: "ret_err p \<noteq> None \<and> Status (Info (out_target p)) = StatusFailed \<and>
                 calls (out_cfg p) = calls cfgW @ [StoreUpdate cur, StoreUpdate (out_target p)] \<and>
                 out_current p = cur \<and>
                 Releases (out_cfg p) =
                   fst (storage_Update (fst (storage_Update (Releases cfgW) cur)) (out_target p))"
                unfolding eqw by (rule waitFailed_outcome)
              have "calls (out_cfg p) =
                      calls cfg @ (pre @ rec @ [wcall, StoreUpdate cur]) @
                        StoreUpdate (out_target p) # []"
                using out by (simp add: cfgW_def)
              moreover have "\<not> list_ex is_store_write []" by simp
              ultimately have ex: "\<exists>cs cs'. calls (out_cfg p) =
                              calls cfg @ cs @ StoreUpdate (out_target p) # cs' \<and>
                              \<not> list_ex is_store_write cs'"
                by blast
              have "Releases cfgW = Releases cfg" by (simp add: cfgW_def)
              with ex show ?thesis
                using nodry b1 b2 hook upd None nosdr True out by (auto simp: wres_def)
            next
              case False
              define cfgP where
                "cfgP = cfg\<lparr>calls := calls cfg @ pre @ rec @
                          (if rollback.Wait r then [wcall] else [])\<rparr>"
              have eqp: "p = postRollback e r cfgP cur tgt results"
                unfolding eq using nosdr False
                by (auto simp: updateSucceeded_def called_def Let_def cfgU_def cfgP_def rec_def
                    wcall_def wres_def split: if_splits)
              have out: "if \<not> DisableHooks r \<and> execHook e tgt HookPostRollback (Timeout r) \<noteq> None
                 then ret_err p = execHook e tgt HookPostRollback (Timeout r) \<and>
                      Status (Info (out_target p)) = Status (Info tgt)
                 else ret_err p = None"
                unfolding eqp by (rule postRollback_outcome)
              show ?thesis
                using nodry b1 b2 hook upd None nosdr False out by (auto simp: wres_def)
            qed
          qed
        qed
      qed
    qed
  qed
qed

theorem failure_status_witness:
  "(Status (Info (out_target (performRollback app_env plain_rollback
       (app_cfg failing_update_client) app5 (newTargetRelease app_env ''app'' app5 app4 4)))) =
      StatusFailed \<and>
    Releases (out_cfg (performRollback app_env plain_rollback
       (app_cfg failing_update_client) app5 (newTargetRelease app_env ''app'' app5 app4 4))) =
      fst (storage_Update
             (fst (storage_Update app_store
                     (out_current (performRollback app_env plain_rollback
                        (app_cfg failing_update_client) app5
                        (newTargetRelease app_env ''app'' app5 app4 4)))))
             (out_target (performRollback app_env plain_rollback
                (app_cfg failing_update_client) app5
                (newTargetRelease app_env ''app'' app5 app4 4))))) \<and>
   Status (Info (out_target (performRollback app_env (plain_rollback\<lparr>rollback.Wait := True\<rparr>)
       (app_cfg failing_wait_client) app5 (newTargetRelease app_env ''app'' app5 app4 4)))) =
      StatusFailed \<and>
   (ret_err (performRollback failing_hook_env plain_rollback
       (app_cfg good_client) app5 (newTargetRelease app_env ''app'' app5 app4 4)) =
      Some ''hook failed'' \<and>
    Status (Info (out_target (performRollback failing_hook_env plain_rollback
       (app_cfg good_client) app5 (newTargetRelease app_env ''app'' app5 app4 4)))) =
      StatusPendingRollback) \<and>
   (ret_err (performRollback failing_post_hook_env plain_rollback
       (app_cfg good_client) app5 (newTargetRelease app_env ''app'' app5 app4 4)) =
      Some ''post hook failed'' \<and>
    Status (Info (out_target (performRollback failing_post_hook_env plain_rollback
       (app_cfg good_client) app5 (newTargetRelease app_env ''app'' app5 app4 4)))) =
      StatusPendingRollback) \<and>
   (ret_err (performRollback app_env plain_rollback
       (app_cfg (failing_build_client ''manifest of 4'')) app5
       (newTargetRelease app_env ''app'' app5 app4 4)) \<noteq> None \<and>
    Status (Info (out_target (performRollback app_env plain_rollback
       (app_cfg (failing_build_client ''manifest of 4'')) app5
       (newTargetRelease app_env ''app'' app5 app4 4)))) =
      StatusPendingRollback)"
proof -
  let ?t = "newTargetRelease app_env ''app'' app5 app4 4"
  have m: "Manifest ?t = ''manifest of 4''" "Manifest app5 = ''manifest of 5''"
    "Status (Info ?t) = StatusPendingRollback"
    by (simp_all add: newTargetRelease_def app4_def app5_def)
  have r: "\<not> DryRun plain_rollback" "\<not> ServerDryRun plain_rollback"
    "\<not> DisableHooks plain_rollback" "\<not> rollback.Wait plain_rollback"
    "\<not> WaitForJobs plain_rollback" "Timeout plain_rollback = 300" "\<not> Force plain_rollback"
    by (simp_all add: plain_rollback_def)
  have a: "Status (Info (out_target (performRollback app_env plain_rollback
       (app_cfg failing_update_client) app5 ?t))) = StatusFailed \<and>
    Releases (out_cfg (performRollback app_env plain_rollback
       (app_cfg failing_update_client) app5 ?t)) =
      fst (storage_Update
             (fst (storage_Update app_store
                     (out_current (performRollback app_env plain_rollback
                        (app_cfg failing_update_client) app5 ?t))))
             (out_target (performRollback app_env plain_rollback
                (app_cfg failing_update_client) app5 ?t)))"
    using failure_status
      [where e = app_env and r = plain_rollback and cfg = "app_cfg failing_update_client"
         and cur = app5 and tgt = ?t]
    by (simp add: m r app_cfg_def failing_update_client_def client_with_def app_env_def)
  have w: "Status (Info (out_target (performRollback app_env
       (plain_rollback\<lparr>rollback.Wait := True\<rparr>) (app_cfg failing_wait_client) app5 ?t))) =
      StatusFailed"
    using failure_status
      [where e = app_env and r = "plain_rollback\<lparr>rollback.Wait := True\<rparr>"
         and cfg = "app_cfg failing_wait_client" and cur = app5 and tgt = ?t]
    by (simp add: m r app_cfg_def failing_wait_client_def client_with_def app_env_def)
  have h: "ret_err (performRollback failing_hook_env plain_rollback
       (app_cfg good_client) app5 ?t) = Some ''hook failed'' \<and>
    Status (Info (out_target (performRollback failing_hook_env plain_rollback
       (app_cfg good_client) app5 ?t))) = StatusPendingRollback"
    using failure_status
      [where e = failing_hook_env and r = plain_rollback and cfg = "app_cfg good_client"
         and cur = app5 and tgt = ?t]
    by (simp add: m r app_cfg_def good_client_def client_with_def failing_hook_env_def)
  have ph: "ret_err (performRollback failing_post_hook_env plain_rollback
       (app_cfg good_client) app5 ?t) = Some ''post hook failed'' \<and>
    Status (Info (out_target (performRollback failing_post_hook_env plain_rollback
       (app_cfg good_client) app5 ?t))) = StatusPendingRollback"
    using failure_status
      [where e = failing_post_hook_env and r = plain_rollback and cfg = "app_cfg good_client"
         and cur = app5 and tgt = ?t]
    by (simp add: m r app_cfg_def good_client_def client_with_def failing_post_hook_env_def)
  have b: "ret_err (performRollback app_env plain_rollback
       (app_cfg (failing_build_client ''manifest of 4'')) app5 ?t) \<noteq> None \<and>
    Status (Info (out_target (performRollback app_env plain_rollback
       (app_cfg (failing_build_client ''manifest of 4'')) app5 ?t))) = StatusPendingRollback"
    using failure_status
      [where e = app_env and r = plain_rollback
         and cfg = "app_cfg (failing_build_client ''manifest of 4'')" and cur = app5 and tgt = ?t]
    by (simp add: m r app_cfg_def failing_build_client_def)
  show ?thesis using a w h ph b by blast
qed

text \<open>
  C4, as the claim has it, fails: when the pre-rollback hook fails the run returns the
  hook's error, the target is still pending rollback, and so is its record in the store.
\<close>

theorem hook_failure_leaves_pending:
  "snd (RunWithResult failing_hook_env plain_rollback (app_cfg good_client) ''app'') =
     (None, Some ''hook failed'') \<and>
   map (\<lambda>rel. (release.Version rel, Status (Info rel)))
     (releases (Releases (fst (RunWithResult failing_hook_env plain_rollback
                                 (app_cfg good_client) ''app'')))) =
     [(4, StatusSuperseded), (5, StatusDeployed), (6, StatusPendingRollback)] \<and>
   ret_err (performRollback failing_hook_env plain_rollback (app_cfg good_client) app5
              (newTargetRelease failing_hook_env ''app'' app5 app4 4)) = Some ''hook failed'' \<and>
   Status (Info (out_target (performRollback failing_hook_env plain_rollback (app_cfg good_client)
              app5 (newTargetRelease failing_hook_env ''app'' app5 app4 4)))) =
     StatusPendingRollback"
  by (simp add: action_defs store_defs example_defs failing_hook_env_def Let_def)

section \<open>A server dry run that succeeds\<close>

text \<open>
  C7. Let the client have the server-dry-run capability and its dry-run variant be
  reachable, the releases resolve to \<open>cur\<close> and \<open>prev\<close>, both manifests build and the
  update succeed with \<open>results\<close>. \<^verbatim>\<open>RunWithResult\<close> returns \<open>results\<close> and no error.
  Its calls are the capability, \<^verbatim>\<open>IsReachable\<close>, the two reads of the store, the two
  builds and the update: no hook, no wait, no listing of deployed releases, and no
  \<open>Create\<close> or \<open>Update\<close> of the store, whose records are as before. In memory the
  target has the status deployed.
\<close>

theorem server_dry_run_success:
  assumes sdr: "ServerDryRun r" and nodry: "\<not> DryRun r"
    and cap: "WithServerDryRun (KubeClient cfg) = Some dri"
    and reach: "IsReachable dri = None"
    and valid: "ValidateReleaseName e name = None"
    and nonneg: "\<not> sint (rollback.Version r) < 0"
    and last: "storage_Last (Releases cfg) name = Inr cur"
    and get: "storage_Get (Releases cfg) name (previousVersion r cur) = Inr prev"
    and b1: "Build dri (Manifest cur) False = Inr current"
    and b2: "Build dri (Manifest prev) False = Inr target"
    and upd: "Update dri current target (Force r) = (results, None)"
  shows "RunWithResult e r cfg name =
           (cfg\<lparr>KubeClient := dri,
                Releases := (Releases cfg)\<lparr>storage.MaxHistory := rollback.MaxHistory r\<rparr>,
                calls := calls cfg @
                  [CallWithServerDryRun, CallIsReachable, StoreLast name,
                   StoreGet name (previousVersion r cur), CallBuild (Manifest cur),
                   CallBuild (Manifest prev), CallUpdate current target (Force r)]\<rparr>,
            Some results, None) \<and>
         out_target (performRollback e r (cfg\<lparr>KubeClient := dri\<rparr>) cur
                       (newTargetRelease e name cur prev (previousVersion r cur))) =
           (newTargetRelease e name cur prev (previousVersion r cur))
             \<lparr>Info := (Info (newTargetRelease e name cur prev (previousVersion r cur)))
                \<lparr>Status := StatusDeployed\<rparr>\<rparr>"
proof -
  let ?tgt = "newTargetRelease e name cur prev (previousVersion r cur)"
  have m: "Manifest ?tgt = Manifest prev" by (simp add: newTargetRelease_def)
  have hook: "ServerDryRun r \<or> DisableHooks r \<or> execHook e ?tgt HookPreRollback (Timeout r) = None"
    using sdr by simp
  have perf: "KubeClient cfg0 = dri \<Longrightarrow>
      performRollback e r cfg0 cur ?tgt =
        returns (cfg0\<lparr>calls := calls cfg0 @ [CallBuild (Manifest cur), CallBuild (Manifest prev),
                    CallUpdate current target (Force r)]\<rparr>)
          cur (?tgt\<lparr>Info := (Info ?tgt)\<lparr>Status := StatusDeployed\<rparr>\<rparr>)
          (Some (?tgt\<lparr>Info := (Info ?tgt)\<lparr>Status := StatusDeployed\<rparr>\<rparr>)) (Some results) None" for cfg0
    using performRollback_update [of r cfg0 cur current ?tgt target e results None] nodry sdr b1 b2 upd m
    by (simp add: updateSucceeded_def Let_def)
  let ?cfg2 = "cfg\<lparr>KubeClient := dri,
                calls := calls cfg @ [CallWithServerDryRun, CallIsReachable],
                Releases := (Releases cfg)\<lparr>storage.MaxHistory := rollback.MaxHistory r\<rparr>\<rparr>"
  have prep: "prepareRollback e r ?cfg2 name =
           (?cfg2\<lparr>calls := calls ?cfg2 @ [StoreLast name, StoreGet name (previousVersion r cur)]\<rparr>,
            Inr (cur, ?tgt))"
    by (rule prepareRollback_success) (use valid nonneg last get in simp_all)
  have run: "RunWithResult e r cfg name =
           (cfg\<lparr>KubeClient := dri,
                Releases := (Releases cfg)\<lparr>storage.MaxHistory := rollback.MaxHistory r\<rparr>,
                calls := calls cfg @
                  [CallWithServerDryRun, CallIsReachable, StoreLast name,
                   StoreGet name (previousVersion r cur), CallBuild (Manifest cur),
                   CallBuild (Manifest prev), CallUpdate current target (Force r)]\<rparr>,
            Some results, None)"
    using sdr cap reach prep
    by (simp add: RunWithResult_def serverDryRunClient_def called_def perf returns_def Let_def)
  show ?thesis using run perf [of "cfg\<lparr>KubeClient := dri\<rparr>"] by (simp add: returns_def)
qed

theorem server_dry_run_success_witness:
  "ServerDryRun (plain_rollback\<lparr>ServerDryRun := True\<rparr>) \<and>
   WithServerDryRun (KubeClient (app_cfg dry_run_client)) = Some good_client \<and>
   RunWithResult app_env (plain_rollback\<lparr>ServerDryRun := True\<rparr>) (app_cfg dry_run_client) ''app'' =
     (\<lparr>KubeClient = good_client, Releases = app_store\<lparr>storage.MaxHistory := 10\<rparr>,
       calls = [CallWithServerDryRun, CallIsReachable, StoreLast ''app'', StoreGet ''app'' 4,
                CallBuild ''manifest of 5'', CallBuild ''manifest of 4'',
                CallUpdate [''manifest of 5''] [''manifest of 4''] False]\<rparr>,
      Some (created_AB [''manifest of 5''] [''manifest of 4'']), None) \<and>
   Status (Info (out_target (performRollback app_env (plain_rollback\<lparr>ServerDryRun := True\<rparr>)
      ((app_cfg dry_run_client)\<lparr>KubeClient := good_client\<rparr>) app5
      (newTargetRelease app_env ''app'' app5 app4 4)))) = StatusDeployed"
proof -
  have pv: "previousVersion (plain_rollback\<lparr>ServerDryRun := True\<rparr>) app5 = 4"
    by (simp add: previousVersion_def plain_rollback_def app5_def)
  have sdr: "ServerDryRun (plain_rollback\<lparr>ServerDryRun := True\<rparr>)" by simp
  have nodry: "\<not> DryRun (plain_rollback\<lparr>ServerDryRun := True\<rparr>)"
    by (simp add: plain_rollback_def)
  have cap: "WithServerDryRun (KubeClient (app_cfg dry_run_client)) = Some good_client"
    by (simp add: app_cfg_def dry_run_client_def client_with_def)
  have reach: "IsReachable good_client = None"
    by (simp add: good_client_def client_with_def)
  have valid: "ValidateReleaseName app_env ''app'' = None" by (simp add: app_env_def)
  have nonneg: "\<not> sint (rollback.Version (plain_rollback\<lparr>ServerDryRun := True\<rparr>)) < 0"
    by (simp add: plain_rollback_def)
  have last: "storage_Last (Releases (app_cfg dry_run_client)) ''app'' = Inr app5"
    by (simp add: example_defs dry_run_client_def store_defs)
  have get: "storage_Get (Releases (app_cfg dry_run_client)) ''app''
               (previousVersion (plain_rollback\<lparr>ServerDryRun := True\<rparr>) app5) = Inr app4"
    unfolding pv by (simp add: example_defs dry_run_client_def store_defs)
  have b1: "Build good_client (Manifest app5) False = Inr [''manifest of 5'']"
    by (simp add: good_client_def client_with_def app5_def)
  have b2: "Build good_client (Manifest app4) False = Inr [''manifest of 4'']"
    by (simp add: good_client_def client_with_def app4_def)
  have upd: "Update good_client [''manifest of 5''] [''manifest of 4'']
               (Force (plain_rollback\<lparr>ServerDryRun := True\<rparr>)) =
               (created_AB [''manifest of 5''] [''manifest of 4''], None)"
    by (simp add: good_client_def client_with_def)
  show ?thesis
    using server_dry_run_success [OF sdr nodry cap reach valid nonneg last get b1 b2 upd] cap
    unfolding pv
    by (simp add: plain_rollback_def app_cfg_def app4_def app5_def)
qed

section \<open>The supersession loop on the store\<close>

lemma same_key_superseded [simp]:
  "same_key (superseded d) x = same_key d x" "same_key x (superseded d) = same_key x d"
  "Status (Info (superseded d)) = StatusSuperseded" "Name (superseded d) = Name d"
  "release.Version (superseded d) = release.Version d"
  by (simp_all add: same_key_def superseded_def)





lemma after_supersede_Nil [simp]: "after_supersede [] x = x"
  by (simp add: after_supersede_def)

lemma after_supersede_Cons:
  "after_supersede (d # ds) x = after_supersede ds (if same_key d x then superseded d else x)"
  by (simp add: after_supersede_def)

lemma after_supersede_key: "same_key (after_supersede ds x) y = same_key x y"
proof (induction ds arbitrary: x)
  case Nil
  show ?case by simp
next
  case (Cons d ds)
  show ?case
    unfolding after_supersede_Cons Cons.IH
    by (auto simp: same_key_def)
qed

lemma after_supersede_Name [simp]: "Name (after_supersede ds x) = Name x"
  using after_supersede_key [of ds x x] by (simp add: same_key_def)












section \<open>The store as the calls leave it\<close>









lemma after_supersede_Version [simp]:
  "release.Version (after_supersede ds x) = release.Version x"
  using after_supersede_key [of ds x x] by (simp add: same_key_def)

section \<open>A run that succeeds\<close>







section \<open>Supersession on full success\<close>



end
